theory Spec2Isabelle
  imports Main
begin

section \<open>The readline extension module \<^verbatim>\<open>src/cly/_rlext.c\<close>\<close>

text \<open>
  The module exposes three operations of the line editor to Python: \<^verbatim>\<open>bind_key\<close>,
  \<^verbatim>\<open>force_redisplay\<close> and \<^verbatim>\<open>cursor\<close>. Its own state is the static array
  \<^verbatim>\<open>bind_key_map[256]\<close>; it also reads and writes the editor's globals
  \<^verbatim>\<open>rl_point\<close> and \<^verbatim>\<open>rl_end\<close>, the editor's key map (through \<^verbatim>\<open>rl_bind_key\<close>), and
  the interpreter's current thread state, error indicator and reference counts.
  All of it is gathered in one record that every operation takes and returns.
\<close>

subsection \<open>Python objects, exceptions, thread states\<close>

text \<open>
  The objects a caller can pass. \<open>PyFunc n\<close> is the callable with identity \<open>n\<close>; the
  other three are not callable. \<open>PyInt\<close> carries Python's unbounded integer.
\<close>

datatype pyobj = PyNone | PyInt int | PyStr string | PyFunc nat

text \<open>
  The exceptions that can sit in the error indicator. \<open>TypeError\<close> with a message is what
  the module raises itself (\<^verbatim>\<open>PyErr_SetString(PyExc_TypeError, ...)\<close>); the three others
  are what the argument parser leaves behind when it rejects the argument tuple; \<open>HandlerError\<close>
  stands for whatever a key handler raises.
\<close>

datatype py_error =
    TypeError string
  | ArgCountError
  | ArgIntegerRequired
  | ArgIntegerOverflow
  | HandlerError nat

type_synonym thread_state = nat

text \<open>What calling a handler with two integers does: it returns an object or raises.\<close>

datatype outcome = Returns pyobj | Raises py_error

type_synonym behaviour = "pyobj \<Rightarrow> int \<Rightarrow> int \<Rightarrow> outcome"

subsection \<open>The state\<close>

text \<open>One entry of \<^verbatim>\<open>bind_key_map\<close>; \<open>None\<close> is the \<^verbatim>\<open>NULL\<close> pointer.\<close>

record slot =
  callback :: "pyobj option"
  tstate :: "thread_state option"

text \<open>What the editor has bound to a key: its own command, or \<^verbatim>\<open>bind_key_handler\<close>.\<close>

datatype rl_command = RlDefault | BindKeyHandler

text \<open>
  The ghost field \<open>trace\<close> records, in order, the context switches and handler calls
  made; the code has no such log.
\<close>

datatype event =
    EvRestoreThread thread_state
  | EvCall pyobj int int
  | EvSaveThread

record rlext =
  bind_key_map :: "slot list"
  rl_keymap :: "int \<Rightarrow> rl_command"
  rl_point :: int
  rl_end :: int
  tstate_current :: "thread_state option"
  err_indicator :: "py_error option"
  ob_refcnt :: "pyobj \<Rightarrow> int"
  trace :: "event list"

text \<open>The array is declared with 256 entries.\<close>

definition table_ok :: "rlext \<Rightarrow> bool" where
  "table_ok s = (length (bind_key_map s) = 256)"

text \<open>
  Static storage starts zeroed: every slot holds two \<^verbatim>\<open>NULL\<close>s. The rest is a state
  in which Python code is running on thread state 1 and every object has one reference.
\<close>

definition empty_slot :: slot where
  "empty_slot = \<lparr>callback = None, tstate = None\<rparr>"

definition init_state :: rlext where
  "init_state =
     \<lparr>bind_key_map = replicate 256 empty_slot,
      rl_keymap = (\<lambda>_. RlDefault),
      rl_point = 0,
      rl_end = 0,
      tstate_current = Some 1,
      err_indicator = None,
      ob_refcnt = (\<lambda>_. 1),
      trace = []\<rparr>"

subsection \<open>The interpreter's primitives the module calls\<close>

text \<open>
  These are functions of the Python C API, not of this repository. Each is modelled as
  its documentation describes it, on the part of the state it touches.
\<close>

definition INT_MIN :: int where
  "INT_MIN = - (2 ^ 31)"

definition INT_MAX :: int where
  "INT_MAX = 2 ^ 31 - 1"

text \<open>\<^verbatim>\<open>PyCallable_Check\<close>.\<close>

fun PyCallable_Check :: "pyobj \<Rightarrow> bool" where
  "PyCallable_Check (PyFunc _) = True"
| "PyCallable_Check _ = False"

text \<open>
  \<^verbatim>\<open>PyArg_ParseTuple(args, "iO:bind_key", &key, &callback)\<close>: exactly two arguments,
  the first an integer that fits a C \<^verbatim>\<open>int\<close>, the second any object.
\<close>

fun PyArg_ParseTuple_iO :: "pyobj list \<Rightarrow> py_error + (int \<times> pyobj)" where
  "PyArg_ParseTuple_iO [PyInt n, ob] =
     (if n < INT_MIN \<or> INT_MAX < n then Inl ArgIntegerOverflow else Inr (n, ob))"
| "PyArg_ParseTuple_iO [_, _] = Inl ArgIntegerRequired"
| "PyArg_ParseTuple_iO _ = Inl ArgCountError"

text \<open>
  \<^verbatim>\<open>PyArg_ParseTuple(args, "|i:set_cursor", &rl_point)\<close>: no argument (nothing is
  stored, \<open>Inr None\<close>) or one integer that fits a C \<^verbatim>\<open>int\<close>.
\<close>

fun PyArg_ParseTuple_opt_i :: "pyobj list \<Rightarrow> py_error + int option" where
  "PyArg_ParseTuple_opt_i [] = Inr None"
| "PyArg_ParseTuple_opt_i [PyInt n] =
     (if n < INT_MIN \<or> INT_MAX < n then Inl ArgIntegerOverflow else Inr (Some n))"
| "PyArg_ParseTuple_opt_i [_] = Inl ArgIntegerRequired"
| "PyArg_ParseTuple_opt_i _ = Inl ArgCountError"

definition PyErr_Set :: "rlext \<Rightarrow> py_error \<Rightarrow> rlext" where
  "PyErr_Set s e = s\<lparr>err_indicator := Some e\<rparr>"

definition PyErr_Clear :: "rlext \<Rightarrow> rlext" where
  "PyErr_Clear s = s\<lparr>err_indicator := None\<rparr>"

definition Py_INCREF :: "rlext \<Rightarrow> pyobj \<Rightarrow> rlext" where
  "Py_INCREF s ob = s\<lparr>ob_refcnt := (ob_refcnt s)(ob := ob_refcnt s ob + 1)\<rparr>"

definition Py_DECREF :: "rlext \<Rightarrow> pyobj \<Rightarrow> rlext" where
  "Py_DECREF s ob = s\<lparr>ob_refcnt := (ob_refcnt s)(ob := ob_refcnt s ob - 1)\<rparr>"

text \<open>The \<^verbatim>\<open>X\<close> variants do nothing on \<^verbatim>\<open>NULL\<close>.\<close>

definition Py_XINCREF :: "rlext \<Rightarrow> pyobj option \<Rightarrow> rlext" where
  "Py_XINCREF s p = (case p of None \<Rightarrow> s | Some ob \<Rightarrow> Py_INCREF s ob)"

definition Py_XDECREF :: "rlext \<Rightarrow> pyobj option \<Rightarrow> rlext" where
  "Py_XDECREF s p = (case p of None \<Rightarrow> s | Some ob \<Rightarrow> Py_DECREF s ob)"

text \<open>
  The ways \<^verbatim>\<open>bind_key_handler\<close> can stop the process instead of returning: an index
  outside the array, \<^verbatim>\<open>PyEval_RestoreThread(NULL)\<close> (a fatal error),
  \<^verbatim>\<open>PyEval_RestoreThread\<close> while the interpreter lock is already held (a deadlock), and a
  call through a \<^verbatim>\<open>NULL\<close> callback.
\<close>

datatype fault = OutOfBounds | FatalError | Deadlock | NullCall

text \<open>
  \<^verbatim>\<open>PyEval_RestoreThread(tstate)\<close> enters the interpreter: it takes the lock and makes
  \<open>tstate\<close> current. \<^verbatim>\<open>PyEval_SaveThread()\<close> leaves it: it clears the current thread
  state, releases the lock and returns the thread state that was current.
\<close>

definition PyEval_RestoreThread :: "rlext \<Rightarrow> thread_state option \<Rightarrow> fault + rlext" where
  "PyEval_RestoreThread s p =
     (case p of
        None \<Rightarrow> Inl FatalError
      | Some t \<Rightarrow>
          if tstate_current s \<noteq> None then Inl Deadlock
          else Inr (s\<lparr>tstate_current := Some t, trace := trace s @ [EvRestoreThread t]\<rparr>))"

definition PyEval_SaveThread :: "rlext \<Rightarrow> thread_state option \<times> rlext" where
  "PyEval_SaveThread s =
     (tstate_current s, s\<lparr>tstate_current := None, trace := trace s @ [EvSaveThread]\<rparr>)"

text \<open>
  \<^verbatim>\<open>PyEval_CallObject(callback, args)\<close> with \<open>args = (count, key)\<close>. What the handler
  does is the parameter \<open>beh\<close>. A returned object comes with a new reference; a raised
  exception is left in the error indicator and the result is \<^verbatim>\<open>NULL\<close>; calling an
  object that is not callable raises a \<^verbatim>\<open>TypeError\<close>. Handlers are taken not to call
  back into this module while they run.
\<close>

definition PyEval_CallObject ::
  "behaviour \<Rightarrow> rlext \<Rightarrow> pyobj \<Rightarrow> int \<Rightarrow> int \<Rightarrow> pyobj option \<times> rlext" where
  "PyEval_CallObject beh s cb n k =
     (if \<not> PyCallable_Check cb
      then (None, PyErr_Set s (TypeError ''object is not callable''))
      else
        (let s1 = s\<lparr>trace := trace s @ [EvCall cb n k]\<rparr>
         in case beh cb n k of
              Returns r \<Rightarrow> (Some r, Py_INCREF s1 r)
            | Raises e \<Rightarrow> (None, PyErr_Set s1 e)))"

subsection \<open>The editor's binding hook\<close>

text \<open>
  Modelled from the spec: the line editor is an external library. Its hook
  \<^verbatim>\<open>rl_bind_key(key, function)\<close> records that presses of \<open>key\<close> go to \<open>function\<close>, and
  a press of an intercepted key calls the function with the repeat count and the key code.
\<close>

definition rl_bind_key :: "rlext \<Rightarrow> int \<Rightarrow> rl_command \<Rightarrow> rlext" where
  "rl_bind_key s key f = s\<lparr>rl_keymap := (rl_keymap s)(key := f)\<rparr>"

subsection \<open>The module's functions\<close>

text \<open>Writing the two fields of \<^verbatim>\<open>bind_key_map[key]\<close>.\<close>

definition set_callback :: "rlext \<Rightarrow> int \<Rightarrow> pyobj option \<Rightarrow> rlext" where
  "set_callback s key p =
     s\<lparr>bind_key_map := (bind_key_map s)[nat key := (bind_key_map s ! nat key)\<lparr>callback := p\<rparr>]\<rparr>"

definition set_tstate :: "rlext \<Rightarrow> int \<Rightarrow> thread_state option \<Rightarrow> rlext" where
  "set_tstate s key p =
     s\<lparr>bind_key_map := (bind_key_map s)[nat key := (bind_key_map s ! nat key)\<lparr>tstate := p\<rparr>]\<rparr>"

text \<open>
  \<^verbatim>\<open>bind_key(self, args)\<close>. The result \<open>None\<close> is the \<^verbatim>\<open>NULL\<close> return, with the
  exception in the error indicator.
\<close>

definition bind_key :: "rlext \<Rightarrow> pyobj list \<Rightarrow> pyobj option \<times> rlext" where
  "bind_key s args =
     (case PyArg_ParseTuple_iO args of
        Inl e \<Rightarrow> (None, PyErr_Set s e)
      | Inr (key, cb) \<Rightarrow>
          if \<not> PyCallable_Check cb
          then (None, PyErr_Set s (TypeError ''bind_key requires callable as second argument''))
          else if key < 0 \<or> key > 255
          then (None, PyErr_Set s (TypeError ''bind_key requires key ordinal as first argument''))
          else
            (let s1 = set_callback s key (Some cb);
                 s2 = set_tstate s1 key (tstate_current s1);
                 s3 = rl_bind_key s2 key BindKeyHandler;
                 s4 = Py_XINCREF s3 (callback (bind_key_map s3 ! nat key));
                 s5 = Py_INCREF s4 PyNone
             in (Some PyNone, s5)))"

text \<open>
  \<^verbatim>\<open>bind_key_handler(count, key)\<close>, the function the editor calls on a press of an
  intercepted key. The C indexes the array with \<open>key\<close> unchecked. The argument tuple
  \<open>(count, key)\<close> is built and released inside the function and is not tracked in
  \<open>ob_refcnt\<close>.
\<close>

definition bind_key_handler ::
  "behaviour \<Rightarrow> rlext \<Rightarrow> int \<Rightarrow> int \<Rightarrow> fault + (int \<times> rlext)" where
  "bind_key_handler beh s n key =
     (if key < 0 \<or> key > 255 then Inl OutOfBounds
      else
        case PyEval_RestoreThread s (tstate (bind_key_map s ! nat key)) of
          Inl f \<Rightarrow> Inl f
        | Inr s1 \<Rightarrow>
            (case callback (bind_key_map s1 ! nat key) of
               None \<Rightarrow> Inl NullCall
             | Some cb \<Rightarrow>
                 (let (result, s2) = PyEval_CallObject beh s1 cb n key;
                      s3 = (case result of
                              None \<Rightarrow> Py_XDECREF (PyErr_Clear s2) result
                            | Some r \<Rightarrow> Py_DECREF s2 r);
                      (ts, s4) = PyEval_SaveThread s3;
                      s5 = set_tstate s4 key ts
                  in Inr (0, s5))))"

text \<open>
  \<^verbatim>\<open>cursor(self, args)\<close>. The parser stores an integer argument straight into
  \<^verbatim>\<open>rl_point\<close>; the two clamping statements follow whether or not one was given.
\<close>

definition cursor :: "rlext \<Rightarrow> pyobj list \<Rightarrow> pyobj option \<times> rlext" where
  "cursor s args =
     (case PyArg_ParseTuple_opt_i args of
        Inl e \<Rightarrow> (None, PyErr_Set s e)
      | Inr v \<Rightarrow>
          (let s1 = (case v of None \<Rightarrow> s | Some n \<Rightarrow> s\<lparr>rl_point := n\<rparr>);
               s2 = (if rl_point s1 > rl_end s1 then s1\<lparr>rl_point := rl_end s1\<rparr> else s1);
               s3 = (if rl_point s2 < 0 then s2\<lparr>rl_point := 0\<rparr> else s2)
           in (Some (PyInt (rl_point s3)), s3)))"

text \<open>The handler calls recorded in a trace, as (handler, count, key).\<close>

fun invocations :: "event list \<Rightarrow> (pyobj \<times> int \<times> int) list" where
  "invocations [] = []"
| "invocations (EvCall h n k # es) = (h, n, k) # invocations es"
| "invocations (_ # es) = invocations es"

text \<open>
  The two exceptions \<^verbatim>\<open>bind_key\<close> raises itself, under the names the specification
  gives them. Both are \<^verbatim>\<open>TypeError\<close>s in the code; the message tells them apart.
\<close>

definition NotCallable :: py_error where
  "NotCallable = TypeError ''bind_key requires callable as second argument''"

definition InvalidKeyCode :: py_error where
  "InvalidKeyCode = TypeError ''bind_key requires key ordinal as first argument''"

text \<open>
  A key is bound to handler \<open>h\<close>, registered from thread state \<open>t\<close>: the slot holds
  both and the editor sends presses of the key to \<^verbatim>\<open>bind_key_handler\<close>.
\<close>

definition bound :: "rlext \<Rightarrow> int \<Rightarrow> pyobj \<Rightarrow> thread_state \<Rightarrow> bool" where
  "bound s key h t =
     (0 \<le> key \<and> key \<le> 255 \<and> PyCallable_Check h \<and>
      bind_key_map s ! nat key = \<lparr>callback = Some h, tstate = Some t\<rparr> \<and>
      rl_keymap s key = BindKeyHandler)"

text \<open>
  The editor keeps the cursor inside the line buffer: \<open>0 \<le> rl_point \<le> rl_end\<close>.
\<close>

definition cursor_in_range :: "rlext \<Rightarrow> bool" where
  "cursor_in_range s = (0 \<le> rl_point s \<and> rl_point s \<le> rl_end s)"

text \<open>A state in which the cursor lies beyond the end of the line buffer.\<close>

definition overshoot_state :: rlext where
  "overshoot_state = init_state\<lparr>rl_point := 50, rl_end := 10\<rparr>"

text \<open>
  States used as concrete inputs. Between a registration and the next key press the
  interpreter leaves its context on entering the editor's input loop; that step is
  \<^verbatim>\<open>PyEval_SaveThread\<close>. In \<open>listening_state\<close> key 65 is bound to handler 7 and
  the editor is waiting for input; in \<open>two_keys_state\<close> key 66 is bound to handler 8 as
  well; \<open>rebound_state\<close> is the state after key 65 was bound to handler 1 and then to
  handler 2.
\<close>

definition listening_state :: rlext where
  "listening_state = snd (PyEval_SaveThread (snd (bind_key init_state [PyInt 65, PyFunc 7])))"

definition two_keys_state :: rlext where
  "two_keys_state =
     snd (PyEval_SaveThread
       (snd (bind_key (snd (bind_key init_state [PyInt 65, PyFunc 7])) [PyInt 66, PyFunc 8])))"

definition rebound_state :: rlext where
  "rebound_state =
     snd (bind_key (snd (bind_key init_state [PyInt 65, PyFunc 1])) [PyInt 65, PyFunc 2])"

text \<open>Handlers that all return \<^verbatim>\<open>None\<close>, and handlers of which number 7 raises.\<close>

definition returning_none :: behaviour where
  "returning_none h n k = Returns PyNone"

definition failing_seven :: behaviour where
  "failing_seven h n k = (if h = PyFunc 7 then Raises (HandlerError 0) else Returns PyNone)"

section \<open>The cursor accessor\<close>

lemma cursor_with_offset:
  assumes "PyArg_ParseTuple_opt_i args = Inr (Some n)"
  shows "cursor s args =
    (Some (PyInt (max 0 (min (rl_end s) n))), s\<lparr>rl_point := max 0 (min (rl_end s) n)\<rparr>)"
  using assms by (simp add: cursor_def Let_def max_def min_def)

lemma cursor_rejected:
  assumes "PyArg_ParseTuple_opt_i args = Inl e"
  shows "cursor s args = (None, s\<lparr>err_indicator := Some e\<rparr>)"
  using assms by (simp add: cursor_def PyErr_Set_def)

text \<open>
  Claim C7. When \<^verbatim>\<open>cursor\<close> is called with an offset \<open>n\<close> and the buffer length
  \<^verbatim>\<open>rl_end\<close> is not negative, the cursor is set to \<open>n\<close> clamped into \<open>[0, rl_end]\<close> and
  that value is returned; nothing else in the state changes. An offset above \<^verbatim>\<open>rl_end\<close>
  gives \<^verbatim>\<open>rl_end\<close>, a negative one gives 0. The offset is the C \<^verbatim>\<open>int\<close> the parser
  stored.
\<close>

theorem cursor_offset_clamped:
  assumes "PyArg_ParseTuple_opt_i args = Inr (Some n)" and "0 \<le> rl_end s"
  shows "\<exists>p. cursor s args = (Some (PyInt p), s\<lparr>rl_point := p\<rparr>) \<and>
           p = max 0 (min (rl_end s) n) \<and> 0 \<le> p \<and> p \<le> rl_end s \<and>
           (if rl_end s < n then p = rl_end s else if n < 0 then p = 0 else p = n)"
  using assms by (simp add: cursor_with_offset)

theorem cursor_offset_clamped_witness:
  "cursor (init_state\<lparr>rl_end := 10\<rparr>) [PyInt 1000] =
     (Some (PyInt 10), init_state\<lparr>rl_end := 10, rl_point := 10\<rparr>) \<and>
   cursor (init_state\<lparr>rl_end := 10\<rparr>) [PyInt (- 5)] =
     (Some (PyInt 0), init_state\<lparr>rl_end := 10, rl_point := 0\<rparr>)"
  using cursor_offset_clamped [of "[PyInt 1000]" 1000 "init_state\<lparr>rl_end := 10\<rparr>"]
    cursor_offset_clamped [of "[PyInt (- 5)]" "- 5" "init_state\<lparr>rl_end := 10\<rparr>"]
  by (simp add: INT_MIN_def INT_MAX_def init_state_def)

text \<open>
  The editor's invariant holds in the initial state and every operation of the module
  keeps it: \<^verbatim>\<open>cursor\<close> clamps, the two others do not touch the cursor.
\<close>

lemma init_state_in_range: "cursor_in_range init_state"
  by (simp add: cursor_in_range_def init_state_def)

lemma cursor_in_range_kept:
  assumes "cursor_in_range s"
  shows "cursor_in_range (snd (cursor s args))"
  using assms
  by (auto simp add: cursor_in_range_def cursor_def Let_def PyErr_Set_def
       split: sum.splits option.splits)

lemma bind_key_keeps_cursor:
  "rl_point (snd (bind_key s args)) = rl_point s \<and> rl_end (snd (bind_key s args)) = rl_end s"
  by (auto simp add: bind_key_def Let_def PyErr_Set_def set_callback_def set_tstate_def
       rl_bind_key_def Py_XINCREF_def Py_INCREF_def split: sum.splits option.splits)

lemma dispatch_keeps_cursor:
  assumes "bind_key_handler beh s n key = Inr (r, s')"
  shows "rl_point s' = rl_point s \<and> rl_end s' = rl_end s"
  using assms
  by (auto simp add: bind_key_handler_def PyEval_RestoreThread_def PyEval_CallObject_def
       PyEval_SaveThread_def set_tstate_def Py_INCREF_def Py_DECREF_def Py_XDECREF_def
       PyErr_Clear_def PyErr_Set_def Let_def
       split: if_splits option.splits sum.splits outcome.splits)

lemma bind_key_in_range_kept:
  "cursor_in_range s \<Longrightarrow> cursor_in_range (snd (bind_key s args))"
  by (simp add: cursor_in_range_def bind_key_keeps_cursor)

lemma dispatch_in_range_kept:
  "cursor_in_range s \<Longrightarrow> bind_key_handler beh s n key = Inr (r, s') \<Longrightarrow> cursor_in_range s'"
  by (simp add: cursor_in_range_def dispatch_keeps_cursor)

text \<open>
  Claim C8. In every cursor state, that is with the cursor inside the line buffer as the
  editor keeps it, \<^verbatim>\<open>cursor()\<close> with no argument returns the current offset and
  leaves the cursor position, and the whole state, unchanged.
\<close>

theorem cursor_noarg_unchanged:
  assumes "0 \<le> rl_point s" and "rl_point s \<le> rl_end s"
  shows "cursor s [] = (Some (PyInt (rl_point s)), s)"
  using assms by (simp add: cursor_def)

theorem cursor_noarg_unchanged_witness:
  "cursor (init_state\<lparr>rl_point := 3, rl_end := 10\<rparr>) [] =
     (Some (PyInt 3), init_state\<lparr>rl_point := 3, rl_end := 10\<rparr>)"
  using cursor_noarg_unchanged [of "init_state\<lparr>rl_point := 3, rl_end := 10\<rparr>"]
  by (simp add: init_state_def)

text \<open>
  Claim C10. Every call of \<^verbatim>\<open>cursor\<close> that the argument parser accepts, with an
  offset (\<open>v = Some n\<close>) or without one (\<open>v = None\<close>), applies the clamp: the position
  stored is the offset given, or else the position there was, clamped into
  \<open>[0, rl_end]\<close>; that position is the value returned; it lies in \<open>[0, rl_end]\<close>; and
  nothing else in the state changes. This holds for every buffer length \<^verbatim>\<open>rl_end\<close> that
  is not negative and whatever the position was before.
\<close>

theorem cursor_always_clamps:
  assumes "PyArg_ParseTuple_opt_i args = Inr v" and "0 \<le> rl_end s"
  shows "\<exists>p. cursor s args = (Some (PyInt p), s\<lparr>rl_point := p\<rparr>) \<and>
           p = max 0 (min (rl_end s) (case v of None \<Rightarrow> rl_point s | Some n \<Rightarrow> n)) \<and>
           0 \<le> p \<and> p \<le> rl_end s"
  using assms by (cases v) (auto simp add: cursor_def Let_def max_def min_def)

theorem cursor_always_clamps_witness:
  "cursor overshoot_state [] = (Some (PyInt 10), overshoot_state\<lparr>rl_point := 10\<rparr>) \<and>
   cursor overshoot_state [PyInt 7] = (Some (PyInt 7), overshoot_state\<lparr>rl_point := 7\<rparr>) \<and>
   cursor (overshoot_state\<lparr>rl_point := - 4\<rparr>) [] =
     (Some (PyInt 0), overshoot_state\<lparr>rl_point := 0\<rparr>) \<and>
   cursor (overshoot_state\<lparr>rl_point := 3\<rparr>) [] =
     (Some (PyInt 3), overshoot_state\<lparr>rl_point := 3\<rparr>)"
  using cursor_always_clamps [of "[]" None overshoot_state]
    cursor_always_clamps [of "[PyInt 7]" "Some 7" overshoot_state]
    cursor_always_clamps [of "[]" None "overshoot_state\<lparr>rl_point := - 4\<rparr>"]
    cursor_always_clamps [of "[]" None "overshoot_state\<lparr>rl_point := 3\<rparr>"]
  by (simp add: INT_MIN_def INT_MAX_def overshoot_state_def init_state_def)

section \<open>Registration errors\<close>

lemma bind_key_rejected:
  assumes "PyArg_ParseTuple_iO args = Inl e"
  shows "bind_key s args = (None, s\<lparr>err_indicator := Some e\<rparr>)"
  using assms by (simp add: bind_key_def PyErr_Set_def)

lemma parse_iO_error:
  assumes "PyArg_ParseTuple_iO args = Inl e"
  shows "e = ArgCountError \<or> e = ArgIntegerRequired \<or> e = ArgIntegerOverflow"
  using assms by (induction args rule: PyArg_ParseTuple_iO.induct) (auto split: if_splits)

text \<open>
  Claim C4. When \<^verbatim>\<open>bind_key\<close> is called with a callable and a key code outside
  \<open>[0, 255]\<close>, it returns \<^verbatim>\<open>NULL\<close> with the key-ordinal \<^verbatim>\<open>TypeError\<close> (the
  specification's \<open>InvalidKeyCode\<close>) set, and nothing else in the state differs: no slot
  of the table is written (so the key is not clamped into the table), the editor's key
  map and the reference counts are as before. The key code is the C \<^verbatim>\<open>int\<close> the parser
  produced.
\<close>

theorem bind_key_invalid_key:
  assumes "PyArg_ParseTuple_iO args = Inr (key, cb)" and "PyCallable_Check cb"
    and "key < 0 \<or> 255 < key"
  shows "bind_key s args = (None, s\<lparr>err_indicator := Some InvalidKeyCode\<rparr>) \<and>
         bind_key_map (snd (bind_key s args)) = bind_key_map s \<and>
         rl_keymap (snd (bind_key s args)) = rl_keymap s \<and>
         ob_refcnt (snd (bind_key s args)) = ob_refcnt s"
  using assms by (auto simp add: bind_key_def PyErr_Set_def InvalidKeyCode_def)

theorem bind_key_invalid_key_witness:
  "bind_key init_state [PyInt (- 1), PyFunc 0] =
     (None, init_state\<lparr>err_indicator := Some InvalidKeyCode\<rparr>) \<and>
   bind_key init_state [PyInt 256, PyFunc 0] =
     (None, init_state\<lparr>err_indicator := Some InvalidKeyCode\<rparr>) \<and>
   bind_key_map (snd (bind_key init_state [PyInt 256, PyFunc 0])) = replicate 256 empty_slot"
  using bind_key_invalid_key [of "[PyInt (- 1), PyFunc 0]" "- 1" "PyFunc 0" init_state]
    bind_key_invalid_key [of "[PyInt 256, PyFunc 0]" 256 "PyFunc 0" init_state]
  by (simp add: INT_MIN_def INT_MAX_def init_state_def)

text \<open>
  Claim C5. When \<^verbatim>\<open>bind_key\<close> is called with any key code and an object that is not
  callable, it returns \<^verbatim>\<open>NULL\<close> at once with the not-callable \<^verbatim>\<open>TypeError\<close> (the
  specification's \<open>NotCallable\<close>) set, and nothing else in the state differs: no slot is
  written and \<^verbatim>\<open>rl_bind_key\<close> is not called.
\<close>

theorem bind_key_not_callable:
  assumes "PyArg_ParseTuple_iO args = Inr (key, cb)" and "\<not> PyCallable_Check cb"
  shows "bind_key s args = (None, s\<lparr>err_indicator := Some NotCallable\<rparr>) \<and>
         bind_key_map (snd (bind_key s args)) = bind_key_map s \<and>
         rl_keymap (snd (bind_key s args)) = rl_keymap s \<and>
         ob_refcnt (snd (bind_key s args)) = ob_refcnt s"
  using assms by (auto simp add: bind_key_def PyErr_Set_def NotCallable_def)

theorem bind_key_not_callable_witness:
  "bind_key init_state [PyInt 65, PyStr ''x''] =
     (None, init_state\<lparr>err_indicator := Some NotCallable\<rparr>) \<and>
   bind_key_map (snd (bind_key init_state [PyInt 65, PyStr ''x''])) = replicate 256 empty_slot \<and>
   rl_keymap (snd (bind_key init_state [PyInt 65, PyStr ''x''])) 65 = RlDefault"
  using bind_key_not_callable [of "[PyInt 65, PyStr ''x'']" 65 "PyStr ''x''" init_state]
  by (simp add: INT_MIN_def INT_MAX_def init_state_def)

text \<open>
  Claim C9. \<^verbatim>\<open>bind_key\<close> tests callability before the key range. A call with an
  object that is not callable fails with \<open>NotCallable\<close> also when its key code lies outside
  \<open>[0, 255]\<close>; and whenever a call fails with \<open>InvalidKeyCode\<close>, its second argument is
  callable (and its key code outside the range).
\<close>

theorem callable_checked_first:
  "(PyArg_ParseTuple_iO args = Inr (key, cb) \<and> \<not> PyCallable_Check cb \<and>
      (key < 0 \<or> 255 < key) \<longrightarrow>
      fst (bind_key s args) = None \<and>
      err_indicator (snd (bind_key s args)) = Some NotCallable) \<and>
   (fst (bind_key s args) = None \<and>
      err_indicator (snd (bind_key s args)) = Some InvalidKeyCode \<longrightarrow>
      (\<exists>k h. PyArg_ParseTuple_iO args = Inr (k, h) \<and> PyCallable_Check h \<and>
             (k < 0 \<or> 255 < k)))"
proof (cases "PyArg_ParseTuple_iO args")
  case (Inl e)
  then show ?thesis
    using parse_iO_error [OF Inl] by (auto simp add: bind_key_rejected InvalidKeyCode_def)
next
  case (Inr p)
  then show ?thesis
    by (cases p)
       (auto simp add: bind_key_def PyErr_Set_def NotCallable_def InvalidKeyCode_def Let_def
          split: if_splits)
qed

theorem callable_checked_first_witness:
  "err_indicator (snd (bind_key init_state [PyInt 256, PyNone])) = Some NotCallable \<and>
   err_indicator (snd (bind_key init_state [PyInt 256, PyFunc 0])) = Some InvalidKeyCode \<and>
   (\<exists>k h. PyArg_ParseTuple_iO [PyInt 256, PyFunc 0] = Inr (k, h) \<and> PyCallable_Check h \<and>
          (k < 0 \<or> 255 < k))"
  using callable_checked_first [of "[PyInt 256, PyNone]" 256 PyNone init_state]
    callable_checked_first [of "[PyInt 256, PyFunc 0]" 256 "PyFunc 0" init_state]
  by (simp add: INT_MIN_def INT_MAX_def bind_key_def PyErr_Set_def InvalidKeyCode_def
       init_state_def)

section \<open>Registration and dispatch\<close>

lemma invocations_append: "invocations (es @ fs) = invocations es @ invocations fs"
  by (induction es rule: invocations.induct) simp_all

lemma slot_updated:
  "(sl::slot)\<lparr>callback := a, tstate := b\<rparr> = \<lparr>callback = a, tstate = b\<rparr>"
  by simp

text \<open>What a successful \<^verbatim>\<open>bind_key\<close> does to the state.\<close>

lemma bind_key_success:
  assumes "table_ok s" "0 \<le> k" "k \<le> 255" "PyCallable_Check h"
  shows "bind_key s [PyInt k, h] =
    (Some PyNone,
     s\<lparr>bind_key_map :=
         (bind_key_map s)[nat k := \<lparr>callback = Some h, tstate = tstate_current s\<rparr>],
       rl_keymap := (rl_keymap s)(k := BindKeyHandler),
       ob_refcnt := (ob_refcnt s)(h := ob_refcnt s h + 1, PyNone := ob_refcnt s PyNone + 1)\<rparr>)"
proof -
  have "INT_MIN \<le> k" "k \<le> INT_MAX" using assms by (simp_all add: INT_MIN_def INT_MAX_def)
  moreover have "h \<noteq> PyNone" using assms(4) by auto
  moreover have "nat k < length (bind_key_map s)" using assms by (simp add: table_ok_def)
  ultimately show ?thesis using assms
    by (simp add: bind_key_def Let_def set_callback_def set_tstate_def rl_bind_key_def
         Py_XINCREF_def Py_INCREF_def slot_updated)
qed

lemma bind_key_table_ok:
  assumes "table_ok s"
  shows "table_ok (snd (bind_key s args))"
  using assms
  by (auto simp add: bind_key_def table_ok_def Let_def PyErr_Set_def set_callback_def
       set_tstate_def rl_bind_key_def Py_XINCREF_def Py_INCREF_def
       split: sum.splits option.splits)

lemma bind_key_bound:
  assumes "table_ok s" "0 \<le> k" "k \<le> 255" "PyCallable_Check h" "tstate_current s = Some t"
  shows "bound (snd (bind_key s [PyInt k, h])) k h t"
  using assms by (simp add: bind_key_success bound_def table_ok_def)

text \<open>Binding one key leaves the bindings of the other keys alone.\<close>

lemma bind_key_other_bound:
  assumes "table_ok s" "0 \<le> k" "k \<le> 255" "PyCallable_Check h" "bound s k' h' t'" "k' \<noteq> k"
  shows "bound (snd (bind_key s [PyInt k, h])) k' h' t'"
proof -
  have "nat k \<noteq> nat k'" using assms by (auto simp add: bound_def)
  then show ?thesis using assms by (simp add: bind_key_success bound_def)
qed

lemma cursor_keeps_bound: "bound (snd (cursor s args)) k h t = bound s k h t"
  by (auto simp add: cursor_def bound_def Let_def PyErr_Set_def split: sum.splits option.splits)

text \<open>
  What \<^verbatim>\<open>bind_key_handler\<close> does on a bound key when called from the editor: the only
  changes are the three trace entries and, if the handler raised, the cleared error
  indicator. The slot's thread state is written back unchanged, and the reference taken
  on a returned object is dropped again.
\<close>

lemma dispatch_bound:
  assumes "bound s key h t" "tstate_current s = None"
  shows "bind_key_handler beh s n key =
    Inr (0, s\<lparr>trace := trace s @ [EvRestoreThread t, EvCall h n key, EvSaveThread],
             err_indicator :=
               (case beh h n key of Returns r \<Rightarrow> err_indicator s | Raises e \<Rightarrow> None)\<rparr>)"
proof -
  have upd: "(bind_key_map s)[nat key := \<lparr>callback = Some h, tstate = Some t\<rparr>] = bind_key_map s"
    using assms(1) list_update_id [of "bind_key_map s" "nat key"] by (simp add: bound_def)
  show ?thesis
    using assms upd
    by (cases "beh h n key")
       (simp_all add: bound_def bind_key_handler_def PyEval_RestoreThread_def
         PyEval_CallObject_def PyEval_SaveThread_def set_tstate_def Py_INCREF_def Py_DECREF_def
         Py_XDECREF_def PyErr_Clear_def PyErr_Set_def Let_def)
qed

lemma dispatch_keeps_bound:
  assumes "bound s key h t" "tstate_current s = None" "bound s k' h' t'"
    "bind_key_handler beh s n key = Inr (r, s')"
  shows "bound s' k' h' t' \<and> tstate_current s' = None"
  using assms(2,3,4) unfolding dispatch_bound [OF assms(1,2)] by (auto simp add: bound_def)

text \<open>Every call of \<^verbatim>\<open>bind_key_handler\<close> that returns has this shape.\<close>

lemma dispatch_returns_bracketed:
  assumes "bind_key_handler beh s n key = Inr (r, s')"
  shows "r = 0 \<and> tstate_current s' = None \<and>
         (\<exists>t0 calls. trace s' = trace s @ EvRestoreThread t0 # calls @ [EvSaveThread] \<and>
            (calls = [] \<or> (\<exists>h0. calls = [EvCall h0 n key])))"
  using assms
  by (auto simp add: bind_key_handler_def PyEval_RestoreThread_def PyEval_CallObject_def
       PyEval_SaveThread_def set_tstate_def Py_INCREF_def Py_DECREF_def Py_XDECREF_def
       PyErr_Clear_def PyErr_Set_def Let_def
       split: if_splits option.splits sum.splits outcome.splits)

text \<open>When it does not return.\<close>

lemma dispatch_faults:
  "bind_key_handler beh s n key = Inl f \<longleftrightarrow>
     (if key < 0 \<or> 255 < key then f = OutOfBounds
      else if tstate (bind_key_map s ! nat key) = None then f = FatalError
      else if tstate_current s \<noteq> None then f = Deadlock
      else callback (bind_key_map s ! nat key) = None \<and> f = NullCall)"
  by (auto simp add: bind_key_handler_def PyEval_RestoreThread_def PyEval_CallObject_def
       PyEval_SaveThread_def set_tstate_def Let_def
       split: if_splits option.splits sum.splits outcome.splits prod.splits)

text \<open>
  A key press right after the interpreter has left its context: the handler bound to the
  key is called once, with the count and the key.
\<close>

lemma press_bound_key:
  assumes "bound s1 k h t"
  shows "\<exists>s2. bind_key_handler beh (snd (PyEval_SaveThread s1)) n k = Inr (0, s2) \<and>
           invocations (trace s2) = invocations (trace s1) @ [(h, n, k)]"
proof -
  let ?s = "snd (PyEval_SaveThread s1)"
  have b: "bound ?s k h t" using assms by (simp add: bound_def PyEval_SaveThread_def)
  have c: "tstate_current ?s = None" by (simp add: PyEval_SaveThread_def)
  have tr: "trace ?s = trace s1 @ [EvSaveThread]" by (simp add: PyEval_SaveThread_def)
  show ?thesis
    using tr by (simp add: dispatch_bound [OF b c] invocations_append)
qed

lemma init_state_ok: "table_ok init_state"
  by (simp add: table_ok_def init_state_def)

lemma listening_state_eq:
  "listening_state =
     init_state\<lparr>bind_key_map :=
         (replicate 256 empty_slot)[65 := \<lparr>callback = Some (PyFunc 7), tstate = Some 1\<rparr>],
       rl_keymap := (\<lambda>_. RlDefault)(65 := BindKeyHandler),
       ob_refcnt := (\<lambda>_. 1)(PyFunc 7 := 2, PyNone := 2),
       tstate_current := None, trace := [EvSaveThread]\<rparr>"
  using bind_key_success [OF init_state_ok, of 65 "PyFunc 7"]
  by (simp add: listening_state_def PyEval_SaveThread_def init_state_def)

lemma listening_state_bound: "bound listening_state 65 (PyFunc 7) 1"
  by (simp add: listening_state_eq bound_def init_state_def)

lemma listening_state_native: "tstate_current listening_state = None"
  by (simp add: listening_state_eq)

lemma two_keys_state_eq:
  "two_keys_state =
     init_state\<lparr>bind_key_map := (replicate 256 empty_slot)
         [65 := \<lparr>callback = Some (PyFunc 7), tstate = Some 1\<rparr>,
          66 := \<lparr>callback = Some (PyFunc 8), tstate = Some 1\<rparr>],
       rl_keymap := (\<lambda>_. RlDefault)(65 := BindKeyHandler, 66 := BindKeyHandler),
       ob_refcnt := (\<lambda>_. 1)(PyFunc 7 := 2, PyNone := 3, PyFunc 8 := 2),
       tstate_current := None, trace := [EvSaveThread]\<rparr>"
proof -
  have ok: "table_ok (snd (bind_key init_state [PyInt 65, PyFunc 7]))"
    by (rule bind_key_table_ok [OF init_state_ok])
  show ?thesis
    using bind_key_success [OF init_state_ok, of 65 "PyFunc 7"]
      bind_key_success [OF ok, of 66 "PyFunc 8"]
    by (simp add: two_keys_state_def PyEval_SaveThread_def init_state_def fun_upd_twist)
qed

text \<open>
  Claim C1. For every key code \<open>k\<close> in \<open>[0, 255]\<close> and every callable \<open>h\<close>,
  \<^verbatim>\<open>bind_key(k, h)\<close> called from Python code succeeds (it returns \<^verbatim>\<open>None\<close> and the editor
  now sends \<open>k\<close> to \<^verbatim>\<open>bind_key_handler\<close>), and a press of \<open>k\<close> that follows, with repeat
  count \<open>n\<close>, returns 0 and adds exactly one handler call to those made before: the call
  of \<open>h\<close> with the arguments \<open>(n, k)\<close>, whatever the handler then does.
\<close>

theorem register_then_dispatch:
  assumes "table_ok s" and "0 \<le> k" and "k \<le> 255" and "PyCallable_Check h"
    and "tstate_current s = Some t"
  shows "\<exists>s1 s2. bind_key s [PyInt k, h] = (Some PyNone, s1) \<and>
           rl_keymap s1 k = BindKeyHandler \<and>
           bind_key_handler beh (snd (PyEval_SaveThread s1)) n k = Inr (0, s2) \<and>
           invocations (trace s2) = invocations (trace s) @ [(h, n, k)]"
proof -
  obtain s1 where s1: "bind_key s [PyInt k, h] = (Some PyNone, s1)"
    using assms by (simp add: bind_key_success)
  have b1: "bound s1 k h t" using bind_key_bound [OF assms] s1 by simp
  have tr1: "trace s1 = trace s" using s1 assms by (auto simp add: bind_key_success)
  obtain s2 where "bind_key_handler beh (snd (PyEval_SaveThread s1)) n k = Inr (0, s2)"
    and "invocations (trace s2) = invocations (trace s1) @ [(h, n, k)]"
    using press_bound_key [OF b1] by blast
  then show ?thesis
    using s1 b1 tr1 by (simp add: bound_def)
qed

theorem register_then_dispatch_witness:
  "\<exists>s1 s2. bind_key init_state [PyInt 65, PyFunc 7] = (Some PyNone, s1) \<and>
     rl_keymap s1 65 = BindKeyHandler \<and>
     bind_key_handler returning_none (snd (PyEval_SaveThread s1)) 3 65 = Inr (0, s2) \<and>
     invocations (trace s2) = [(PyFunc 7, 3, 65)]"
  using register_then_dispatch [OF init_state_ok, of 65 "PyFunc 7" 1 returning_none 3]
  by (simp add: init_state_def)

text \<open>
  Claim C6. Every dispatch brackets the handler call with the context switch. On a bound
  key, called from the editor, \<^verbatim>\<open>bind_key_handler\<close> performs exactly
  \<^verbatim>\<open>PyEval_RestoreThread\<close>, then the handler call, then \<^verbatim>\<open>PyEval_SaveThread\<close>, and no
  thread state is current when it returns. And whenever \<^verbatim>\<open>bind_key_handler\<close> returns at
  all, what it did starts with \<^verbatim>\<open>PyEval_RestoreThread\<close>, ends with
  \<^verbatim>\<open>PyEval_SaveThread\<close>, and has at most the one handler call in between.
\<close>

theorem dispatch_brackets_call:
  "(bound s key h t \<and> tstate_current s = None \<longrightarrow>
      (\<exists>s'. bind_key_handler beh s n key = Inr (0, s') \<and>
         trace s' = trace s @ [EvRestoreThread t, EvCall h n key, EvSaveThread] \<and>
         tstate_current s' = None)) \<and>
   (\<forall>r s'. bind_key_handler beh s n key = Inr (r, s') \<longrightarrow>
      tstate_current s' = None \<and>
      (\<exists>t0 calls. trace s' = trace s @ EvRestoreThread t0 # calls @ [EvSaveThread] \<and>
         (calls = [] \<or> (\<exists>h0. calls = [EvCall h0 n key]))))"
proof (intro conjI impI allI)
  assume "bound s key h t \<and> tstate_current s = None"
  then have b: "bound s key h t" and c: "tstate_current s = None" by simp_all
  show "\<exists>s'. bind_key_handler beh s n key = Inr (0, s') \<and>
      trace s' = trace s @ [EvRestoreThread t, EvCall h n key, EvSaveThread] \<and>
      tstate_current s' = None"
    using c by (simp add: dispatch_bound [OF b c])
next
  fix r s'
  assume "bind_key_handler beh s n key = Inr (r, s')"
  from dispatch_returns_bracketed [OF this]
  show "tstate_current s' = None" by simp
next
  fix r s'
  assume "bind_key_handler beh s n key = Inr (r, s')"
  from dispatch_returns_bracketed [OF this]
  show "\<exists>t0 calls. trace s' = trace s @ EvRestoreThread t0 # calls @ [EvSaveThread] \<and>
      (calls = [] \<or> (\<exists>h0. calls = [EvCall h0 n key]))" by simp
qed

theorem dispatch_brackets_call_witness:
  "\<exists>s'. bind_key_handler returning_none listening_state 3 65 = Inr (0, s') \<and>
     trace s' = [EvSaveThread, EvRestoreThread 1, EvCall (PyFunc 7) 3 65, EvSaveThread] \<and>
     tstate_current s' = None"
  using dispatch_brackets_call [of listening_state 65 "PyFunc 7" 1 returning_none 3]
    listening_state_bound listening_state_native
  by (simp add: listening_state_eq init_state_def)

text \<open>
  Claim C3. If the handler of a bound key raises during dispatch, \<^verbatim>\<open>bind_key_handler\<close>
  still returns, with the status 0 and with the error indicator cleared, so nothing of the
  failure reaches the editor; 0 is the status it returns whatever the handler does; and
  the next press, of any bound key \<open>key2\<close>, is handled as usual: its handler is called
  inside the context switch and the status is 0 again.
\<close>

theorem handler_failure_swallowed:
  assumes "bound s key h t" and "tstate_current s = None" and "beh h n key = Raises e"
    and "bound s key2 h2 t2"
  shows "\<exists>s' s''. bind_key_handler beh s n key = Inr (0, s') \<and>
           err_indicator s' = None \<and>
           (\<forall>beh'. \<exists>s0. bind_key_handler beh' s n key = Inr (0, s0)) \<and>
           bind_key_handler beh2 s' n2 key2 = Inr (0, s'') \<and>
           trace s'' = trace s' @ [EvRestoreThread t2, EvCall h2 n2 key2, EvSaveThread]"
proof -
  obtain s' where s': "bind_key_handler beh s n key = Inr (0, s')"
    by (simp add: dispatch_bound [OF assms(1,2)])
  have e: "err_indicator s' = None"
    using s' assms(3) by (auto simp add: dispatch_bound [OF assms(1,2)])
  have b2: "bound s' key2 h2 t2" and c2: "tstate_current s' = None"
    using dispatch_keeps_bound [OF assms(1,2,4) s'] by simp_all
  have any: "\<forall>beh'. \<exists>s0. bind_key_handler beh' s n key = Inr (0, s0)"
    by (simp add: dispatch_bound [OF assms(1,2)])
  show ?thesis
    using s' e any by (simp add: dispatch_bound [OF b2 c2])
qed

theorem handler_failure_swallowed_witness:
  "\<exists>s' s''. bind_key_handler failing_seven two_keys_state 1 65 = Inr (0, s') \<and>
     err_indicator s' = None \<and>
     bind_key_handler failing_seven s' 1 66 = Inr (0, s'') \<and>
     trace s'' = trace s' @ [EvRestoreThread 1, EvCall (PyFunc 8) 1 66, EvSaveThread]"
proof -
  have b1: "bound two_keys_state 65 (PyFunc 7) 1"
    by (simp add: two_keys_state_eq bound_def init_state_def)
  have b2: "bound two_keys_state 66 (PyFunc 8) 1"
    by (simp add: two_keys_state_eq bound_def init_state_def)
  have c: "tstate_current two_keys_state = None"
    by (simp add: two_keys_state_eq)
  have f: "failing_seven (PyFunc 7) 1 65 = Raises (HandlerError 0)"
    by (simp add: failing_seven_def)
  show ?thesis
    using handler_failure_swallowed [where s = two_keys_state and key = 65 and h = "PyFunc 7"
        and t = 1 and beh = failing_seven and n = 1 and e = "HandlerError 0" and ?key2.0 = 66
        and ?h2.0 = "PyFunc 8" and ?t2.0 = 1 and ?beh2.0 = failing_seven and ?n2.0 = 1]
      b1 c f b2
    by blast
qed

section \<open>Binding a key again\<close>

text \<open>
  After \<^verbatim>\<open>bind_key(k, h1)\<close> and then \<^verbatim>\<open>bind_key(k, h2)\<close> the slot of \<open>k\<close> holds
  \<open>h2\<close>, neither registration calls a handler, and a press of \<open>k\<close> calls \<open>h2\<close> and
  nothing else.
\<close>

lemma rebind_replaces:
  assumes "table_ok s" "0 \<le> k" "k \<le> 255" "PyCallable_Check h1" "PyCallable_Check h2"
    "tstate_current s = Some t"
  shows "\<exists>s1 s2 s3. bind_key s [PyInt k, h1] = (Some PyNone, s1) \<and>
           bind_key s1 [PyInt k, h2] = (Some PyNone, s2) \<and>
           trace s2 = trace s \<and>
           bind_key_map s2 ! nat k = \<lparr>callback = Some h2, tstate = Some t\<rparr> \<and>
           bind_key_handler beh (snd (PyEval_SaveThread s2)) n k = Inr (0, s3) \<and>
           invocations (trace s3) = invocations (trace s) @ [(h2, n, k)]"
proof -
  obtain s1 where s1: "bind_key s [PyInt k, h1] = (Some PyNone, s1)"
    using assms by (simp add: bind_key_success)
  have ok1: "table_ok s1"
    using bind_key_table_ok [OF assms(1), of "[PyInt k, h1]"] s1 by simp
  have t1: "tstate_current s1 = Some t" "trace s1 = trace s"
    using s1 assms by (auto simp add: bind_key_success)
  obtain s2 where s2: "bind_key s1 [PyInt k, h2] = (Some PyNone, s2)"
    using ok1 assms by (simp add: bind_key_success)
  have t2: "trace s2 = trace s1"
    using s2 ok1 assms by (auto simp add: bind_key_success)
  have b2: "bound s2 k h2 t" using bind_key_bound [OF ok1 assms(2,3,5) t1(1)] s2 by simp
  obtain s3 where "bind_key_handler beh (snd (PyEval_SaveThread s2)) n k = Inr (0, s3)"
    and "invocations (trace s3) = invocations (trace s2) @ [(h2, n, k)]"
    using press_bound_key [OF b2] by blast
  then show ?thesis using s1 s2 t1 t2 b2 by (simp add: bound_def)
qed

text \<open>No call of \<^verbatim>\<open>bind_key\<close> lowers a reference count.\<close>

lemma bind_key_never_releases:
  "ob_refcnt s ob \<le> ob_refcnt (snd (bind_key s args)) ob"
  by (auto simp add: bind_key_def Let_def PyErr_Set_def set_callback_def set_tstate_def
       rl_bind_key_def Py_XINCREF_def Py_INCREF_def split: sum.splits option.splits)

text \<open>
  The reference \<^verbatim>\<open>bind_key\<close> took on the first handler is still counted after the
  key has been bound to another one.
\<close>

lemma rebind_keeps_reference:
  assumes "table_ok s" "0 \<le> k" "k \<le> 255" "PyCallable_Check h1" "PyCallable_Check h2"
    "h1 \<noteq> h2"
  shows "ob_refcnt (snd (bind_key (snd (bind_key s [PyInt k, h1])) [PyInt k, h2])) h1
         = ob_refcnt s h1 + 1"
proof -
  define s1 where "s1 = snd (bind_key s [PyInt k, h1])"
  have ok1: "table_ok s1" unfolding s1_def by (rule bind_key_table_ok [OF assms(1)])
  have "h1 \<noteq> PyNone" using assms(4) by auto
  then have c1: "ob_refcnt s1 h1 = ob_refcnt s h1 + 1"
    unfolding s1_def by (simp add: bind_key_success [OF assms(1,2,3,4)])
  have "ob_refcnt (snd (bind_key s1 [PyInt k, h2])) h1 = ob_refcnt s1 h1"
    using assms(4,6) by (auto simp add: bind_key_success [OF ok1 assms(2,3,5)])
  then show ?thesis using c1 by (simp add: s1_def)
qed

text \<open>
  Claim C2, on the code: key 65 is bound to handler 1 and then to handler 2, starting
  from the initial state, where handler 1 has one reference. Afterwards the only slot in
  use holds handler 2, and handler 1 still has the two references it had after its own
  registration: the one the table took is not given back.
\<close>

theorem rebind_leaks_old_handler:
  "map callback (bind_key_map rebound_state) = (replicate 256 None)[65 := Some (PyFunc 2)] \<and>
   ob_refcnt init_state (PyFunc 1) = 1 \<and>
   ob_refcnt (snd (bind_key init_state [PyInt 65, PyFunc 1])) (PyFunc 1) = 2 \<and>
   ob_refcnt rebound_state (PyFunc 1) = 2"
proof -
  have ok1: "table_ok (snd (bind_key init_state [PyInt 65, PyFunc 1]))"
    by (rule bind_key_table_ok [OF init_state_ok])
  show ?thesis
    using bind_key_success [OF init_state_ok, of 65 "PyFunc 1"]
      bind_key_success [OF ok1, of 65 "PyFunc 2"]
    by (simp add: rebound_state_def init_state_def map_update empty_slot_def)
qed

end
